theory Spec2Isabelle
  imports Main
begin

section \<open>Values and validation issues\<close>

text \<open>
  The values a zod schema is run on are JavaScript values. Numbers are never inspected by
  the location schema (only their type tag matters), so they are kept as integers. An
  object is its list of own properties in insertion order; a property is read the way
  JavaScript reads \<^verbatim>\<open>input[key]\<close>, the first entry of the key counting.
  A string is the list of the units that its length counts (\<^verbatim>\<open>.length\<close> in JavaScript,
  the "character count" of the specification).
\<close>

datatype json =
    JUndefined
  | JNull
  | JBool bool
  | JNum int
  | JStr string
  | JArr "json list"
  | JObj "(string \<times> json) list"

text \<open>The type name zod reports for a rejected input ("received ...").\<close>

fun parsedType :: "json \<Rightarrow> string" where
  "parsedType JUndefined = ''undefined''"
| "parsedType JNull = ''null''"
| "parsedType (JBool b) = ''boolean''"
| "parsedType (JNum n) = ''number''"
| "parsedType (JStr s) = ''string''"
| "parsedType (JArr xs) = ''array''"
| "parsedType (JObj kvs) = ''object''"

text \<open>
  An issue as zod reports it: its code with the code's parameters (\<open>invalid_type expected
  received\<close>, \<open>too_small minimum\<close>, \<open>too_big maximum\<close>, \<open>invalid_value options\<close>), the
  path of keys from the root of the input to the offending value, and the field name that
  the issue's message names, when the validator was built with one.
\<close>

datatype issue_code =
    invalid_type string string
  | too_small nat
  | too_big nat
  | invalid_value "string list"

datatype issue = Issue (code: issue_code) (path: "string list") (subject: "string option")

text \<open>
  A schema maps an input either to the list of issues (\<open>Inl\<close>, what \<^verbatim>\<open>safeParse\<close>
  returns with \<^verbatim>\<open>success: false\<close>) or to the validated output (\<open>Inr\<close>).
\<close>

type_synonym schema = "json \<Rightarrow> issue list + json"

section \<open>The zod combinators the location schema is built from\<close>

definition js_get :: "(string \<times> json) list \<Rightarrow> string \<Rightarrow> json" where
  "js_get kvs k = (case map_of kvs k of None \<Rightarrow> JUndefined | Some v \<Rightarrow> v)"

definition has_key :: "(string \<times> json) list \<Rightarrow> string \<Rightarrow> bool" where
  "has_key kvs k = (map_of kvs k \<noteq> None)"

definition prefixIssues :: "string \<Rightarrow> issue list \<Rightarrow> issue list" where
  "prefixIssues k es = map (\<lambda>i. Issue (code i) (k # path i) (subject i)) es"

text \<open>
  \<^verbatim>\<open>z.object(shape)\<close> on an object: every key of the shape, in the order of the shape, has
  its schema run on \<^verbatim>\<open>input[key]\<close> (\<^verbatim>\<open>undefined\<close> when the key is absent). The issues of
  a field are prefixed with its key and all collected. A result other than
  \<^verbatim>\<open>undefined\<close> is stored under the key; \<^verbatim>\<open>undefined\<close> is stored only when the key is
  in the input. Keys of the input that the shape does not declare are not visited, so
  they are absent from the output (zod's default, "strip").
\<close>

fun parse_shape ::
  "(string \<times> schema) list \<Rightarrow> (string \<times> json) list \<Rightarrow> issue list \<times> (string \<times> json) list"
where
  "parse_shape [] input = ([], [])"
| "parse_shape ((k, s) # shape) input =
     (case parse_shape shape input of (es, out) \<Rightarrow>
        (case s (js_get input k) of
           Inl ks \<Rightarrow> (prefixIssues k ks @ es, out)
         | Inr v \<Rightarrow>
             (es, if v = JUndefined \<and> \<not> has_key input k then out else (k, v) # out)))"

definition z_object :: "(string \<times> schema) list \<Rightarrow> schema" where
  "z_object shape x =
     (case x of
        JObj input \<Rightarrow>
          (case parse_shape shape input of
             ([], out) \<Rightarrow> Inr (JObj out)
           | (e # es, out) \<Rightarrow> Inl (e # es))
      | _ \<Rightarrow> Inl [Issue (invalid_type ''object'' (parsedType x)) [] None])"

text \<open>\<^verbatim>\<open>schema.optional()\<close>: \<^verbatim>\<open>undefined\<close> passes as it is, anything else goes to the schema.\<close>

definition z_optional :: "schema \<Rightarrow> schema" where
  "z_optional s x = (if x = JUndefined then Inr JUndefined else s x)"

section \<open>The primitives\<close>

text \<open>
  Modelled from the spec: \<^verbatim>\<open>sizedStringSchema\<close> of the primitives module, which is not
  among the sources. The spec: "a bounded-length string validator
  \<^verbatim>\<open>sizedString(fieldName, min, max)\<close> that fails with a length-violation error when the
  string's character count falls outside \<open>[min, max]\<close>", the violation "naming that
  field". The lower and the upper bound are two checks, both run. A value that is not a
  string (the absent field included) is what zod's string schema rejects with
  \<open>invalid_type\<close>; the output of an accepted string is the string.
\<close>

definition sizedStringSchema :: "string \<Rightarrow> nat \<Rightarrow> nat \<Rightarrow> schema" where
  "sizedStringSchema name mn mx x =
     (case x of
        JStr s \<Rightarrow>
          (case (if length s < mn then [Issue (too_small mn) [] (Some name)] else []) @
                (if mx < length s then [Issue (too_big mx) [] (Some name)] else []) of
             [] \<Rightarrow> Inr (JStr s)
           | e # es \<Rightarrow> Inl (e # es))
      | _ \<Rightarrow> Inl [Issue (invalid_type ''string'' (parsedType x)) [] None])"

text \<open>
  Modelled from the spec: \<^verbatim>\<open>countryOptionSchema\<close> of the primitives module, which is not
  among the sources. The spec: "an enumerated-option validator (e.g., \<^verbatim>\<open>countryOption\<close>)
  that fails with an invalid-choice error when the value is not a member of a fixed
  option list". The list itself, \<^verbatim>\<open>COUNTRY_OPTIONS\<close>, is not among the sources either
  and is the parameter \<open>options\<close> throughout.
\<close>

definition countryOptionSchema :: "string list \<Rightarrow> schema" where
  "countryOptionSchema options x =
     (case x of
        JStr s \<Rightarrow> if s \<in> set options then Inr (JStr s)
                  else Inl [Issue (invalid_value options) [] None]
      | _ \<Rightarrow> Inl [Issue (invalid_value options) [] None])"

section \<open>The location schema\<close>

text \<open>The shape of the inner object of \<^verbatim>\<open>locationSchema\<close>, key by key as the source lists it.\<close>

definition location_shape :: "string list \<Rightarrow> (string \<times> schema) list" where
  "location_shape options =
     [(''city'', sizedStringSchema ''city'' 2 64),
      (''address'', z_optional (sizedStringSchema ''address'' 4 256)),
      (''country'', z_optional (countryOptionSchema options)),
      (''postalCode'', z_optional (sizedStringSchema ''postalCode'' 2 16)),
      (''region'', z_optional (sizedStringSchema ''region'' 2 64))]"

definition locationSchema :: "string list \<Rightarrow> schema" where
  "locationSchema options =
     z_object [(''location'', z_optional (z_object (location_shape options)))]"

text \<open>\<^verbatim>\<open>safeParse(x).success\<close>.\<close>

definition accepts :: "schema \<Rightarrow> json \<Rightarrow> bool" where
  "accepts s x = (case s x of Inl es \<Rightarrow> False | Inr y \<Rightarrow> True)"

text \<open>
  What one key of a shape contributes to the result of \<open>parse_shape\<close>: its issues, and
  its entry of the output.
\<close>

definition field_issues :: "(string \<times> json) list \<Rightarrow> string \<times> schema \<Rightarrow> issue list" where
  "field_issues input = (\<lambda>(k, s).
     (case s (js_get input k) of Inl ks \<Rightarrow> prefixIssues k ks | Inr v \<Rightarrow> []))"

definition field_output ::
  "(string \<times> json) list \<Rightarrow> string \<times> schema \<Rightarrow> (string \<times> json) list" where
  "field_output input = (\<lambda>(k, s).
     (case s (js_get input k) of
        Inl ks \<Rightarrow> []
      | Inr v \<Rightarrow> if v = JUndefined \<and> \<not> has_key input k then [] else [(k, v)]))"

section \<open>The location contract in the words of the specification\<close>

text \<open>
  The predicates below follow the specification, not the source: "\<open>location\<close> is
  optional; when present, \<open>city\<close> is required (2-64 chars); \<open>address\<close> optional (4-256
  chars); \<open>country\<close> optional (must be a recognized country/region option);
  \<open>postalCode\<close> optional (2-16 chars); \<open>region\<close> optional (2-64 chars)". A field is
  absent when reading it gives \<^verbatim>\<open>undefined\<close>.
\<close>

definition spec_sized :: "nat \<Rightarrow> nat \<Rightarrow> json \<Rightarrow> bool" where
  "spec_sized mn mx v =
     (case v of JStr s \<Rightarrow> mn \<le> length s \<and> length s \<le> mx | _ \<Rightarrow> False)"

definition spec_country :: "string list \<Rightarrow> json \<Rightarrow> bool" where
  "spec_country options v = (case v of JStr s \<Rightarrow> s \<in> set options | _ \<Rightarrow> False)"

definition spec_optional :: "(json \<Rightarrow> bool) \<Rightarrow> json \<Rightarrow> bool" where
  "spec_optional P v = (v = JUndefined \<or> P v)"

definition spec_location_item :: "string list \<Rightarrow> json \<Rightarrow> bool" where
  "spec_location_item options v =
     (case v of
        JObj l \<Rightarrow>
          spec_sized 2 64 (js_get l ''city'') \<and>
          spec_optional (spec_sized 4 256) (js_get l ''address'') \<and>
          spec_optional (spec_country options) (js_get l ''country'') \<and>
          spec_optional (spec_sized 2 16) (js_get l ''postalCode'') \<and>
          spec_optional (spec_sized 2 64) (js_get l ''region'')
      | _ \<Rightarrow> False)"

definition spec_location :: "string list \<Rightarrow> json \<Rightarrow> bool" where
  "spec_location options x =
     (case x of
        JObj input \<Rightarrow> spec_optional (spec_location_item options) (js_get input ''location'')
      | _ \<Rightarrow> False)"

text \<open>The bounded string fields with their bounds, as the specification tabulates them.\<close>

definition spec_bounds :: "(string \<times> nat \<times> nat) list" where
  "spec_bounds =
     [(''city'', 2, 64), (''address'', 4, 256), (''postalCode'', 2, 16), (''region'', 2, 64)]"

section \<open>The type of a location item\<close>

text \<open>
  The type \<^verbatim>\<open>LocationItem\<close> of \<^verbatim>\<open>types.ts\<close>: its properties in the order of the
  declaration, each with whether it is declared optional (\<^verbatim>\<open>?:\<close>), and in the same way
  the properties of its \<^verbatim>\<open>computed\<close> object.
\<close>

definition LocationItem :: "(string \<times> bool) list" where
  "LocationItem =
     [(''city'', False),
      (''address'', True),
      (''country'', True),
      (''postalCode'', True),
      (''region'', True),
      (''computed'', True)]"

definition LocationItem_computed :: "(string \<times> bool) list" where
  "LocationItem_computed =
     [(''postalCodeAndAddress'', False),
      (''regionAndCountry'', False),
      (''fullAddress'', False)]"

text \<open>
  The fields an object schema validates, read off the schema itself: the keys of its
  shape, a key being optional when its schema accepts \<^verbatim>\<open>undefined\<close>.
\<close>

definition shape_fields :: "(string \<times> schema) list \<Rightarrow> (string \<times> bool) list" where
  "shape_fields shape = map (\<lambda>(k, s). (k, accepts s JUndefined)) shape"

section \<open>Objects: issues and output key by key\<close>

lemma parse_shape_concat:
  "parse_shape shape input =
     (concat (map (field_issues input) shape), concat (map (field_output input) shape))"
  by (induction shape) (auto simp: field_issues_def field_output_def split: sum.splits)

lemma parse_shape_cong:
  assumes "\<And>k. k \<in> fst ` set shape \<Longrightarrow> map_of a k = map_of b k"
  shows "parse_shape shape a = parse_shape shape b"
proof -
  have "field_issues a p = field_issues b p \<and> field_output a p = field_output b p"
    if "p \<in> set shape" for p
  proof -
    obtain k s where p: "p = (k, s)" by (cases p)
    with that have "map_of a k = map_of b k" using assms by force
    then have "js_get a k = js_get b k" "has_key a k = has_key b k"
      by (simp_all add: js_get_def has_key_def)
    then show ?thesis
      by (simp add: p field_issues_def field_output_def split: sum.splits)
  qed
  then show ?thesis by (simp add: parse_shape_concat cong: map_cong)
qed

lemma map_of_output_other:
  "k \<notin> fst ` set shape \<Longrightarrow> map_of (concat (map (field_output input) shape)) k = None"
proof (induction shape)
  case Nil
  then show ?case by simp
next
  case (Cons p shape)
  obtain k' s where p: "p = (k', s)" by (cases p)
  with Cons have "k \<noteq> k'" by auto
  then have "map_of (field_output input (k', s)) k = None"
    by (auto simp: field_output_def split: sum.splits)
  with Cons p show ?case by (simp add: map_add_def)
qed

lemma map_of_output:
  assumes "distinct (map fst shape)" "(k, s) \<in> set shape"
  shows "map_of (concat (map (field_output input) shape)) k =
         map_of (field_output input (k, s)) k"
  using assms
proof (induction shape)
  case Nil
  then show ?case by simp
next
  case (Cons p shape)
  obtain k' s' where p: "p = (k', s')" by (cases p)
  show ?case
  proof (cases "(k, s) = p")
    case True
    with Cons.prems p have "k \<notin> fst ` set shape" by auto
    then have "map_of (concat (map (field_output input) shape)) k = None"
      by (rule map_of_output_other)
    with True [symmetric] show ?thesis by (simp add: map_add_def split: option.splits)
  next
    case False
    with Cons.prems have in_rest: "(k, s) \<in> set shape" by auto
    with Cons.prems p have "k \<noteq> k'" by force
    then have "map_of (field_output input p) k = None"
      by (auto simp: p field_output_def split: sum.splits)
    moreover from Cons in_rest have
      "map_of (concat (map (field_output input) shape)) k = map_of (field_output input (k, s)) k"
      by simp
    ultimately show ?thesis by (simp add: map_add_def split: option.splits)
  qed
qed

lemma z_object_JObj:
  "z_object shape (JObj input) =
     (if concat (map (field_issues input) shape) = []
      then Inr (JObj (concat (map (field_output input) shape)))
      else Inl (concat (map (field_issues input) shape)))"
  by (cases "concat (map (field_issues input) shape)")
     (simp_all add: z_object_def parse_shape_concat del: concat_eq_Nil_conv)

lemma prefixIssues_Nil [simp]: "(prefixIssues k es = []) = (es = [])"
  by (simp add: prefixIssues_def)

section \<open>No schema fails without an issue\<close>

lemma sizedStringSchema_nonempty: "sizedStringSchema name mn mx v \<noteq> Inl []"
  by (auto simp: sizedStringSchema_def split: json.splits list.splits)

lemma countryOptionSchema_nonempty: "countryOptionSchema C v \<noteq> Inl []"
  by (auto simp: countryOptionSchema_def split: json.splits)

lemma z_optional_nonempty: "(\<And>v. s v \<noteq> Inl []) \<Longrightarrow> z_optional s v \<noteq> Inl []"
  by (simp add: z_optional_def)

lemma z_object_nonempty: "z_object shape v \<noteq> Inl []"
  by (auto simp: z_object_def split: json.splits list.splits prod.splits)

lemma location_shape_nonempty:
  assumes "(k, s) \<in> set (location_shape C)"
  shows "s v \<noteq> Inl []"
  using assms unfolding location_shape_def
  by (auto simp: z_optional_nonempty sizedStringSchema_nonempty countryOptionSchema_nonempty)

lemma location_shape_distinct: "distinct (map fst (location_shape C))"
  by (simp add: location_shape_def)

section \<open>Re-validating a validated object\<close>

text \<open>
  An object schema with distinct keys returns its own output unchanged when every field
  schema does: a key of the output holds the field's validated value, and a key missing
  from the output is one whose schema maps \<^verbatim>\<open>undefined\<close> to \<^verbatim>\<open>undefined\<close>.
\<close>

lemma z_object_idem:
  assumes dist: "distinct (map fst shape)"
    and idem: "\<And>k s v w. (k, s) \<in> set shape \<Longrightarrow> s v = Inr w \<Longrightarrow> s w = Inr w"
    and nonempty: "\<And>k s v. (k, s) \<in> set shape \<Longrightarrow> s v \<noteq> Inl []"
    and ok: "z_object shape x = Inr y"
  shows "z_object shape y = Inr y"
proof -
  from ok obtain input where x: "x = JObj input"
    by (cases x) (auto simp: z_object_def)
  define out where "out = concat (map (field_output input) shape)"
  from ok x have noiss: "concat (map (field_issues input) shape) = []" and y: "y = JObj out"
    by (auto simp: z_object_def parse_shape_concat out_def split: list.splits)
  have step: "field_issues out p = [] \<and> field_output out p = field_output input p"
    if p_in: "p \<in> set shape" for p
  proof -
    obtain k s where p: "p = (k, s)" by (cases p)
    from noiss p_in have "field_issues input (k, s) = []" by (auto simp: p)
    moreover from nonempty p_in p have "s (js_get input k) \<noteq> Inl []" by blast
    ultimately obtain v where v: "s (js_get input k) = Inr v"
      by (cases "s (js_get input k)") (auto simp: field_issues_def prefixIssues_def)
    have look: "map_of out k = map_of (field_output input (k, s)) k"
      unfolding out_def using dist p_in p by (intro map_of_output) auto
    show ?thesis
    proof (cases "v = JUndefined \<and> \<not> has_key input k")
      case True
      then have "js_get input k = JUndefined" by (simp add: js_get_def has_key_def)
      with v True have "s JUndefined = Inr JUndefined" by simp
      moreover from look v True have "map_of out k = None" by (simp add: field_output_def)
      ultimately show ?thesis using v True
        by (simp add: p field_issues_def field_output_def js_get_def has_key_def)
    next
      case False
      with look v have "map_of out k = Some v" by (auto simp: field_output_def)
      moreover from idem p_in p v have "s v = Inr v" by blast
      ultimately show ?thesis using v False
        by (auto simp: p field_issues_def field_output_def js_get_def has_key_def)
    qed
  qed
  then have "parse_shape shape out = ([], out)"
    by (simp add: parse_shape_concat out_def cong: map_cong)
  then show ?thesis by (simp add: z_object_def y)
qed

lemma z_optional_idem:
  assumes "\<And>v w. s v = Inr w \<Longrightarrow> s w = Inr w" "z_optional s v = Inr w"
  shows "z_optional s w = Inr w"
  using assms by (auto simp: z_optional_def split: if_splits)

lemma sizedStringSchema_idem:
  "sizedStringSchema name mn mx v = Inr w \<Longrightarrow> sizedStringSchema name mn mx w = Inr w"
  by (auto simp: sizedStringSchema_def split: json.splits list.splits if_splits)

lemma countryOptionSchema_idem:
  "countryOptionSchema C v = Inr w \<Longrightarrow> countryOptionSchema C w = Inr w"
  by (auto simp: countryOptionSchema_def split: json.splits if_splits)

lemma location_shape_idem:
  assumes "(k, s) \<in> set (location_shape C)" "s v = Inr w"
  shows "s w = Inr w"
  using assms unfolding location_shape_def
  by (auto intro: z_optional_idem sizedStringSchema_idem countryOptionSchema_idem)

lemma location_object_idem:
  "z_object (location_shape C) v = Inr w \<Longrightarrow> z_object (location_shape C) w = Inr w"
  by (rule z_object_idem [where shape = "location_shape C" and x = v])
     (auto intro: location_shape_idem dest: location_shape_nonempty
           simp: location_shape_distinct)

text \<open>
  C5. Validation of the location schema is idempotent: whenever an input validates, with
  output \<open>y\<close>, validating \<open>y\<close> again succeeds and returns \<open>y\<close> itself.
\<close>

theorem locationSchema_idempotent:
  "locationSchema C x = Inr y \<Longrightarrow> locationSchema C y = Inr y"
  unfolding locationSchema_def
  by (rule z_object_idem [where x = x])
     (auto intro: z_optional_idem [of "z_object (location_shape C)"] location_object_idem
           simp: z_optional_nonempty z_object_nonempty)

text \<open>
  The theorem at an input with undeclared keys at both levels: the first run strips them,
  the second returns the stripped object as it is.
\<close>

theorem locationSchema_idempotent_witness:
  "locationSchema [''DE'']
     (JObj [(''city'', JNull),
            (''location'', JObj [(''city'', JStr ''Berlin''), (''zip'', JNum 3),
                                 (''country'', JStr ''DE'')])]) =
     Inr (JObj [(''location'', JObj [(''city'', JStr ''Berlin''), (''country'', JStr ''DE'')])])
   \<and> locationSchema [''DE'']
     (JObj [(''location'', JObj [(''city'', JStr ''Berlin''), (''country'', JStr ''DE'')])]) =
     Inr (JObj [(''location'', JObj [(''city'', JStr ''Berlin''), (''country'', JStr ''DE'')])])"
proof -
  have first: "locationSchema [''DE'']
     (JObj [(''city'', JNull),
            (''location'', JObj [(''city'', JStr ''Berlin''), (''zip'', JNum 3),
                                 (''country'', JStr ''DE'')])]) =
     Inr (JObj [(''location'', JObj [(''city'', JStr ''Berlin''), (''country'', JStr ''DE'')])])"
    by (simp add: locationSchema_def location_shape_def z_object_def z_optional_def
        sizedStringSchema_def countryOptionSchema_def js_get_def has_key_def prefixIssues_def)
  from first locationSchema_idempotent [OF first] show ?thesis by simp
qed

section \<open>Which inputs are accepted\<close>

lemma accepts_sizedStringSchema: "accepts (sizedStringSchema name mn mx) v = spec_sized mn mx v"
  by (cases v) (auto simp: accepts_def sizedStringSchema_def spec_sized_def)

lemma accepts_countryOptionSchema: "accepts (countryOptionSchema C) v = spec_country C v"
  by (cases v) (auto simp: accepts_def countryOptionSchema_def spec_country_def)

lemma accepts_z_optional: "accepts (z_optional s) v = spec_optional (accepts s) v"
  by (simp add: accepts_def z_optional_def spec_optional_def)

lemma field_issues_Nil:
  "s (js_get input k) \<noteq> Inl [] \<Longrightarrow>
   (field_issues input (k, s) = []) = accepts s (js_get input k)"
  by (cases "s (js_get input k)") (simp_all add: field_issues_def accepts_def)

lemma accepts_z_object:
  "accepts (z_object shape) x =
     (case x of JObj input \<Rightarrow> (\<forall>p \<in> set shape. field_issues input p = []) | _ \<Rightarrow> False)"
  by (cases x) (simp_all add: accepts_def z_object_JObj, simp_all add: z_object_def)

lemma accepts_location_object:
  "accepts (z_object (location_shape C)) v = spec_location_item C v"
proof (cases v)
  case (JObj l)
  have "(\<forall>p \<in> set (location_shape C). field_issues l p = []) =
        (\<forall>p \<in> set (location_shape C). accepts (snd p) (js_get l (fst p)))"
    by (intro ball_cong refl) (auto simp: field_issues_Nil location_shape_nonempty)
  then show ?thesis
    by (simp add: JObj accepts_z_object spec_location_item_def)
       (simp add: location_shape_def accepts_sizedStringSchema [abs_def]
          accepts_countryOptionSchema [abs_def] accepts_z_optional)
qed (simp_all add: accepts_z_object spec_location_item_def)

lemma accepts_locationSchema: "accepts (locationSchema C) x = spec_location C x"
proof (cases x)
  case (JObj input)
  have "z_optional (z_object (location_shape C)) v \<noteq> Inl []" for v
    by (simp add: z_optional_nonempty z_object_nonempty)
  then show ?thesis
    by (simp add: JObj locationSchema_def accepts_z_object spec_location_def field_issues_Nil
        accepts_z_optional accepts_location_object [abs_def])
qed (simp_all add: locationSchema_def accepts_z_object spec_location_def)

lemma locationSchema_absent:
  "\<not> has_key input ''location'' \<Longrightarrow> locationSchema C (JObj input) = Inr (JObj [])"
  by (simp add: locationSchema_def z_object_def z_optional_def js_get_def has_key_def)

lemma locationSchema_total:
  "(\<exists>y. locationSchema C x = Inr y) \<or> (\<exists>e es. locationSchema C x = Inl (e # es))"
proof (cases "locationSchema C x")
  case (Inl es)
  then have "es \<noteq> []" using z_object_nonempty by (auto simp: locationSchema_def)
  with Inl show ?thesis by (cases es) simp_all
qed simp

text \<open>
  C1. The location schema accepts exactly the inputs the contract describes: an object
  whose \<open>location\<close> is absent, or is an object with a \<open>city\<close> of 2 to 64 characters and
  with each of \<open>address\<close> (4 to 256), \<open>country\<close> (a listed option), \<open>postalCode\<close> (2 to
  16) and \<open>region\<close> (2 to 64) absent or within its constraint. Every other input is
  rejected with at least one issue. An object without the key \<open>location\<close> validates to
  the empty object.
\<close>

theorem locationSchema_contract:
  "((\<exists>y. locationSchema C x = Inr y) \<longleftrightarrow> spec_location C x) \<and>
   ((\<exists>e es. locationSchema C x = Inl (e # es)) \<longleftrightarrow> \<not> spec_location C x) \<and>
   (\<not> has_key input ''location'' \<longrightarrow> locationSchema C (JObj input) = Inr (JObj []))"
proof -
  have acc: "(\<exists>y. locationSchema C x = Inr y) = spec_location C x"
    using accepts_locationSchema [of C x]
    by (cases "locationSchema C x") (simp_all add: accepts_def)
  moreover have "(\<exists>e es. locationSchema C x = Inl (e # es)) = (\<not> spec_location C x)"
    using locationSchema_total [of C x] acc by auto
  ultimately show ?thesis using locationSchema_absent by blast
qed

text \<open>
  The contract at three inputs: a location within every constraint, a location whose
  \<open>region\<close> is one character long, and an object without the key \<open>location\<close>.
\<close>

theorem locationSchema_contract_witness:
  "spec_location [''DE'']
     (JObj [(''location'', JObj [(''city'', JStr ''Berlin''), (''country'', JStr ''DE'')])]) \<and>
   (\<exists>y. locationSchema [''DE'']
     (JObj [(''location'', JObj [(''city'', JStr ''Berlin''), (''country'', JStr ''DE'')])]) =
     Inr y) \<and>
   \<not> spec_location [''DE'']
     (JObj [(''location'', JObj [(''city'', JStr ''Berlin''), (''region'', JStr ''B'')])]) \<and>
   (\<exists>e es. locationSchema [''DE'']
     (JObj [(''location'', JObj [(''city'', JStr ''Berlin''), (''region'', JStr ''B'')])]) =
     Inl (e # es)) \<and>
   \<not> has_key [(''basics'', JNull)] ''location'' \<and>
   locationSchema [''DE''] (JObj [(''basics'', JNull)]) = Inr (JObj [])"
proof -
  have a: "spec_location [''DE'']
     (JObj [(''location'', JObj [(''city'', JStr ''Berlin''), (''country'', JStr ''DE'')])])"
    by (simp add: spec_location_def spec_location_item_def spec_optional_def spec_sized_def
        spec_country_def js_get_def)
  have b: "\<not> spec_location [''DE'']
     (JObj [(''location'', JObj [(''city'', JStr ''Berlin''), (''region'', JStr ''B'')])])"
    by (simp add: spec_location_def spec_location_item_def spec_optional_def spec_sized_def
        spec_country_def js_get_def)
  have c: "\<not> has_key [(''basics'', JNull)] ''location''"
    by (simp add: has_key_def)
  from a b c
    locationSchema_contract [of "[''DE'']"
      "JObj [(''location'', JObj [(''city'', JStr ''Berlin''), (''country'', JStr ''DE'')])]"
      "[(''basics'', JNull)]"]
    locationSchema_contract [of "[''DE'']"
      "JObj [(''location'', JObj [(''city'', JStr ''Berlin''), (''region'', JStr ''B'')])]"
      "[(''basics'', JNull)]"]
  show ?thesis by blast
qed

section \<open>The issues of a rejected location\<close>

lemma locationSchema_JObj:
  assumes "js_get input ''location'' = JObj l"
  shows "locationSchema C (JObj input) =
     (if concat (map (field_issues l) (location_shape C)) = []
      then Inr (JObj [(''location'', JObj (concat (map (field_output l) (location_shape C))))])
      else Inl (prefixIssues ''location'' (concat (map (field_issues l) (location_shape C)))))"
  using assms
  by (simp add: locationSchema_def z_object_JObj [of _ input] field_issues_def [of input]
      field_output_def [of input] z_optional_def z_object_JObj [of _ l]
      del: concat_eq_Nil_conv)

lemma locationSchema_field_issues:
  assumes loc: "js_get input ''location'' = JObj l"
    and fld: "(k, s) \<in> set (location_shape C)"
    and bad: "s (js_get l k) = Inl ks"
  shows "\<exists>es. locationSchema C (JObj input) = Inl es \<and>
              set (prefixIssues ''location'' (prefixIssues k ks)) \<subseteq> set es"
proof -
  let ?all = "concat (map (field_issues l) (location_shape C))"
  from bad have "field_issues l (k, s) = prefixIssues k ks"
    by (simp add: field_issues_def)
  with fld have sub: "set (prefixIssues k ks) \<subseteq> set ?all" by force
  from bad fld have "ks \<noteq> []" using location_shape_nonempty by force
  then have "set (prefixIssues k ks) \<noteq> {}" by simp
  with sub have "set ?all \<noteq> {}" by (metis subset_empty)
  then have "?all \<noteq> []" by (simp only: set_empty not_False_eq_True)
  with loc have "locationSchema C (JObj input) = Inl (prefixIssues ''location'' ?all)"
    by (simp add: locationSchema_JObj del: concat_eq_Nil_conv)
  moreover from sub have
    "set (prefixIssues ''location'' (prefixIssues k ks)) \<subseteq> set (prefixIssues ''location'' ?all)"
    unfolding prefixIssues_def [of "''location''"] by (simp only: set_map image_mono)
  ultimately show ?thesis by blast
qed

lemma sizedStringSchema_JStr:
  "mn \<le> mx \<Longrightarrow> sizedStringSchema name mn mx (JStr str) =
     (if length str < mn then Inl [Issue (too_small mn) [] (Some name)]
      else if mx < length str then Inl [Issue (too_big mx) [] (Some name)]
      else Inr (JStr str))"
  by (simp add: sizedStringSchema_def)

text \<open>
  C2. For each bounded string field \<open>f\<close> of the location schema, with bounds \<open>mn\<close> and
  \<open>mx\<close>, and every string: the field's schema run on a string shorter than \<open>mn\<close> fails
  with the single issue \<open>too_small mn\<close> naming \<open>f\<close>, on a string longer than \<open>mx\<close> with the
  single issue \<open>too_big mx\<close> naming \<open>f\<close>, and on a string within the bounds it succeeds
  with that string. Through the whole schema the violation is reported under the path
  \<open>location.f\<close>.
\<close>

theorem bounded_field_length:
  assumes "(f, mn, mx) \<in> set spec_bounds"
  shows "\<exists>s. map_of (location_shape C) f = Some s \<and>
      (length str < mn \<longrightarrow> s (JStr str) = Inl [Issue (too_small mn) [] (Some f)]) \<and>
      (mx < length str \<longrightarrow> s (JStr str) = Inl [Issue (too_big mx) [] (Some f)]) \<and>
      (mn \<le> length str \<and> length str \<le> mx \<longrightarrow> s (JStr str) = Inr (JStr str)) \<and>
      (js_get input ''location'' = JObj l \<and> js_get l f = JStr str \<longrightarrow>
         (length str < mn \<longrightarrow>
            (\<exists>es. locationSchema C (JObj input) = Inl es \<and>
                  Issue (too_small mn) [''location'', f] (Some f) \<in> set es)) \<and>
         (mx < length str \<longrightarrow>
            (\<exists>es. locationSchema C (JObj input) = Inl es \<and>
                  Issue (too_big mx) [''location'', f] (Some f) \<in> set es)))"
proof -
  from assms obtain s where s: "map_of (location_shape C) f = Some s"
    and fld: "(f, s) \<in> set (location_shape C)"
    and run: "s (JStr str) = sizedStringSchema f mn mx (JStr str)" and le: "mn \<le> mx"
    by (auto simp: spec_bounds_def location_shape_def z_optional_def)
  have alone:
    "(length str < mn \<longrightarrow> s (JStr str) = Inl [Issue (too_small mn) [] (Some f)]) \<and>
     (mx < length str \<longrightarrow> s (JStr str) = Inl [Issue (too_big mx) [] (Some f)]) \<and>
     (mn \<le> length str \<and> length str \<le> mx \<longrightarrow> s (JStr str) = Inr (JStr str))"
    using le by (auto simp: run sizedStringSchema_JStr)
  have whole: "\<exists>es. locationSchema C (JObj input) = Inl es \<and>
                  Issue c [''location'', f] (Some f) \<in> set es"
    if "js_get input ''location'' = JObj l" "js_get l f = JStr str"
       "s (JStr str) = Inl [Issue c [] (Some f)]" for c
    using locationSchema_field_issues [OF that(1) fld, of "[Issue c [] (Some f)]"] that
    by (auto simp: prefixIssues_def)
  from s alone whole show ?thesis by blast
qed

text \<open>
  The theorem at a too short \<open>address\<close>, alone and inside a location, at a \<open>city\<close>
  within its bounds, and at a \<open>postalCode\<close> of 17 characters.
\<close>

theorem bounded_field_length_witness:
  "(''address'', 4, 256) \<in> set spec_bounds \<and>
   (''city'', 2, 64) \<in> set spec_bounds \<and>
   (''postalCode'', 2, 16) \<in> set spec_bounds \<and>
   length ''123'' < (4::nat) \<and>
   (2::nat) \<le> length ''Berlin'' \<and> length ''Berlin'' \<le> (64::nat) \<and>
   (16::nat) < length ''12345678901234567'' \<and>
   js_get [(''location'', JObj [(''address'', JStr ''123'')])] ''location'' =
     JObj [(''address'', JStr ''123'')] \<and>
   js_get [(''address'', JStr ''123'')] ''address'' = JStr ''123'' \<and>
   (\<exists>s. map_of (location_shape []) ''address'' = Some s \<and>
        s (JStr ''123'') = Inl [Issue (too_small 4) [] (Some ''address'')]) \<and>
   (\<exists>es. locationSchema [] (JObj [(''location'', JObj [(''address'', JStr ''123'')])]) =
           Inl es \<and>
         Issue (too_small 4) [''location'', ''address''] (Some ''address'') \<in> set es) \<and>
   (\<exists>s. map_of (location_shape []) ''city'' = Some s \<and>
        s (JStr ''Berlin'') = Inr (JStr ''Berlin'')) \<and>
   (\<exists>s. map_of (location_shape []) ''postalCode'' = Some s \<and>
        s (JStr ''12345678901234567'') = Inl [Issue (too_big 16) [] (Some ''postalCode'')])"
proof -
  have a: "(''address'', 4, 256) \<in> set spec_bounds"
    and b: "(''city'', 2, 64) \<in> set spec_bounds"
    and c: "(''postalCode'', 2, 16) \<in> set spec_bounds"
    by (simp_all add: spec_bounds_def)
  have d: "js_get [(''location'', JObj [(''address'', JStr ''123'')])] ''location'' =
     JObj [(''address'', JStr ''123'')]"
     "js_get [(''address'', JStr ''123'')] ''address'' = JStr ''123''"
    by (simp_all add: js_get_def)
  have e: "length ''123'' < (4::nat)" "(2::nat) \<le> length ''Berlin''"
    "length ''Berlin'' \<le> (64::nat)" "(16::nat) < length ''12345678901234567''"
    by simp_all
  from bounded_field_length [OF a, of "[]" "''123''"
      "[(''location'', JObj [(''address'', JStr ''123'')])]" "[(''address'', JStr ''123'')]"] d e
  have 1: "(\<exists>s. map_of (location_shape []) ''address'' = Some s \<and>
        s (JStr ''123'') = Inl [Issue (too_small 4) [] (Some ''address'')]) \<and>
   (\<exists>es. locationSchema [] (JObj [(''location'', JObj [(''address'', JStr ''123'')])]) =
           Inl es \<and>
         Issue (too_small 4) [''location'', ''address''] (Some ''address'') \<in> set es)"
    by blast
  from bounded_field_length [OF b, of "[]" "''Berlin''"] e
  have 2: "\<exists>s. map_of (location_shape []) ''city'' = Some s \<and>
        s (JStr ''Berlin'') = Inr (JStr ''Berlin'')"
    by blast
  from bounded_field_length [OF c, of "[]" "''12345678901234567''"] e
  have 3: "\<exists>s. map_of (location_shape []) ''postalCode'' = Some s \<and>
        s (JStr ''12345678901234567'') = Inl [Issue (too_big 16) [] (Some ''postalCode'')]"
    by blast
  from a b c d e 1 [THEN conjunct1] 1 [THEN conjunct2] 2 3 show ?thesis
    by (intro conjI) assumption+
qed

text \<open>
  C3. The country validator accepts exactly the members of the option list, returning
  them, and rejects every other value with the single issue \<open>invalid_value\<close> carrying the
  list. The \<open>country\<close> field of the schema is that validator on every supplied value
  (every value but \<^verbatim>\<open>undefined\<close>, which stands for the field not being supplied), and
  inside a location a supplied value outside the list is reported under the path
  \<open>location.country\<close>.
\<close>

theorem country_option_choice:
  "countryOptionSchema C v =
     (if spec_country C v then Inr v else Inl [Issue (invalid_value C) [] None]) \<and>
   (\<exists>s. map_of (location_shape C) ''country'' = Some s \<and>
        (v \<noteq> JUndefined \<longrightarrow> s v = countryOptionSchema C v)) \<and>
   (js_get input ''location'' = JObj l \<and> js_get l ''country'' = v \<and> v \<noteq> JUndefined \<and>
    \<not> spec_country C v \<longrightarrow>
      (\<exists>es. locationSchema C (JObj input) = Inl es \<and>
            Issue (invalid_value C) [''location'', ''country''] None \<in> set es))"
proof -
  have alone: "countryOptionSchema C v =
     (if spec_country C v then Inr v else Inl [Issue (invalid_value C) [] None])"
    by (cases v) (simp_all add: countryOptionSchema_def spec_country_def)
  have fld: "(''country'', z_optional (countryOptionSchema C)) \<in> set (location_shape C)"
    by (simp add: location_shape_def)
  have whole: "\<exists>es. locationSchema C (JObj input) = Inl es \<and>
            Issue (invalid_value C) [''location'', ''country''] None \<in> set es"
    if "js_get input ''location'' = JObj l" "js_get l ''country'' = v" "v \<noteq> JUndefined"
       "\<not> spec_country C v"
    using locationSchema_field_issues [OF that(1) fld, of "[Issue (invalid_value C) [] None]"]
      that alone
    by (auto simp: prefixIssues_def z_optional_def)
  show ?thesis using alone whole
    by (simp add: location_shape_def z_optional_def)
qed

text \<open>The theorem at a value outside the list, inside a location, and at a member.\<close>

theorem country_option_choice_witness:
  "js_get [(''location'', JObj [(''city'', JStr ''Berlin''), (''country'', JStr ''XX'')])]
     ''location'' = JObj [(''city'', JStr ''Berlin''), (''country'', JStr ''XX'')] \<and>
   js_get [(''city'', JStr ''Berlin''), (''country'', JStr ''XX'')] ''country'' = JStr ''XX'' \<and>
   JStr ''XX'' \<noteq> JUndefined \<and>
   \<not> spec_country [''DE'', ''FR''] (JStr ''XX'') \<and>
   countryOptionSchema [''DE'', ''FR''] (JStr ''XX'') =
     Inl [Issue (invalid_value [''DE'', ''FR'']) [] None] \<and>
   (\<exists>es. locationSchema [''DE'', ''FR'']
       (JObj [(''location'', JObj [(''city'', JStr ''Berlin''), (''country'', JStr ''XX'')])]) =
       Inl es \<and>
     Issue (invalid_value [''DE'', ''FR'']) [''location'', ''country''] None \<in> set es) \<and>
   spec_country [''DE'', ''FR''] (JStr ''FR'') \<and>
   countryOptionSchema [''DE'', ''FR''] (JStr ''FR'') = Inr (JStr ''FR'') \<and>
   (\<exists>s. map_of (location_shape [''DE'', ''FR'']) ''country'' = Some s \<and>
        s (JStr ''FR'') = Inr (JStr ''FR''))"
proof -
  have a: "js_get [(''location'', JObj [(''city'', JStr ''Berlin''), (''country'', JStr ''XX'')])]
     ''location'' = JObj [(''city'', JStr ''Berlin''), (''country'', JStr ''XX'')]"
    "js_get [(''city'', JStr ''Berlin''), (''country'', JStr ''XX'')] ''country'' = JStr ''XX''"
    by (simp_all add: js_get_def)
  have b: "JStr ''XX'' \<noteq> JUndefined" "JStr ''FR'' \<noteq> JUndefined" by simp_all
  have c: "\<not> spec_country [''DE'', ''FR''] (JStr ''XX'')"
    "spec_country [''DE'', ''FR''] (JStr ''FR'')"
    by (simp_all add: spec_country_def)
  from country_option_choice [of "[''DE'', ''FR'']" "JStr ''XX''"
      "[(''location'', JObj [(''city'', JStr ''Berlin''), (''country'', JStr ''XX'')])]"
      "[(''city'', JStr ''Berlin''), (''country'', JStr ''XX'')]"] a b c
  have 1: "countryOptionSchema [''DE'', ''FR''] (JStr ''XX'') =
     Inl [Issue (invalid_value [''DE'', ''FR'']) [] None]"
    and 2: "\<exists>es. locationSchema [''DE'', ''FR'']
       (JObj [(''location'', JObj [(''city'', JStr ''Berlin''), (''country'', JStr ''XX'')])]) =
       Inl es \<and>
     Issue (invalid_value [''DE'', ''FR'']) [''location'', ''country''] None \<in> set es"
    by simp_all
  from country_option_choice [of "[''DE'', ''FR'']" "JStr ''FR''"] b c
  have 3: "countryOptionSchema [''DE'', ''FR''] (JStr ''FR'') = Inr (JStr ''FR'')"
    and 4: "\<exists>s. map_of (location_shape [''DE'', ''FR'']) ''country'' = Some s \<and>
        s (JStr ''FR'') = Inr (JStr ''FR'')"
    by auto
  from a b(1) c(1) 1 2 c(2) 3 4 show ?thesis
    by (intro conjI) assumption+
qed

text \<open>
  C4. An input object without the key \<open>location\<close> validates (to the empty object). An
  input whose \<open>location\<close> is an object without the key \<open>city\<close>, whatever else it holds,
  is rejected, and the first issue is the missing required field: \<open>invalid_type\<close>,
  expected string, received \<^verbatim>\<open>undefined\<close>, at the path \<open>location.city\<close>.
\<close>

theorem location_optional_city_required:
  "(\<not> has_key input ''location'' \<longrightarrow> locationSchema C (JObj input) = Inr (JObj [])) \<and>
   (js_get input ''location'' = JObj l \<and> \<not> has_key l ''city'' \<longrightarrow>
      (\<exists>es. locationSchema C (JObj input) =
         Inl (Issue (invalid_type ''string'' ''undefined'') [''location'', ''city''] None # es)))"
proof -
  have "\<exists>es. locationSchema C (JObj input) =
         Inl (Issue (invalid_type ''string'' ''undefined'') [''location'', ''city''] None # es)"
    if loc: "js_get input ''location'' = JObj l" and no: "\<not> has_key l ''city''"
  proof -
    from no have "js_get l ''city'' = JUndefined" by (simp add: js_get_def has_key_def)
    then have "field_issues l (''city'', sizedStringSchema ''city'' 2 64) =
        [Issue (invalid_type ''string'' ''undefined'') [''city''] None]"
      by (simp add: field_issues_def sizedStringSchema_def prefixIssues_def)
    then obtain es where "concat (map (field_issues l) (location_shape C)) =
        Issue (invalid_type ''string'' ''undefined'') [''city''] None # es"
      by (simp add: location_shape_def)
    then show ?thesis
      by (simp add: locationSchema_JObj [OF loc] prefixIssues_def del: concat_eq_Nil_conv)
  qed
  with locationSchema_absent show ?thesis by blast
qed

text \<open>The theorem at the empty object and at a location that holds a region only.\<close>

theorem location_optional_city_required_witness:
  "\<not> has_key [] ''location'' \<and>
   locationSchema [] (JObj []) = Inr (JObj []) \<and>
   js_get [(''location'', JObj [(''region'', JStr ''Bavaria'')])] ''location'' =
     JObj [(''region'', JStr ''Bavaria'')] \<and>
   \<not> has_key [(''region'', JStr ''Bavaria'')] ''city'' \<and>
   (\<exists>es. locationSchema [] (JObj [(''location'', JObj [(''region'', JStr ''Bavaria'')])]) =
      Inl (Issue (invalid_type ''string'' ''undefined'') [''location'', ''city''] None # es))"
proof -
  have a: "\<not> has_key [] ''location''" "\<not> has_key [(''region'', JStr ''Bavaria'')] ''city''"
    by (simp_all add: has_key_def)
  have b: "js_get [(''location'', JObj [(''region'', JStr ''Bavaria'')])] ''location'' =
     JObj [(''region'', JStr ''Bavaria'')]"
    by (simp add: js_get_def)
  from location_optional_city_required [of "[]" "[]"] a
  have 1: "locationSchema [] (JObj []) = Inr (JObj [])" by blast
  from location_optional_city_required
    [of "[(''location'', JObj [(''region'', JStr ''Bavaria'')])]" "[]"
        "[(''region'', JStr ''Bavaria'')]"] a b
  have 2: "\<exists>es. locationSchema [] (JObj [(''location'', JObj [(''region'', JStr ''Bavaria'')])]) =
      Inl (Issue (invalid_type ''string'' ''undefined'') [''location'', ''city''] None # es)"
    by blast
  from a(1) 1 b a(2) 2 show ?thesis by (intro conjI) assumption+
qed

text \<open>
  C6. Validation does not stop at the first failure: whenever a field of the location
  object fails, the whole validation fails with a list that holds every issue of that
  field, under the path of the field; this holds for each failing field of the same
  input, so all violations are reported together. For
  \<^verbatim>\<open>{ location: { address: "123" } }\<close> the list is the missing \<open>city\<close> followed by the
  \<open>address\<close> below its minimum length 4.
\<close>

theorem issues_reported_together:
  "(js_get input ''location'' = JObj l \<and> (k, s) \<in> set (location_shape C) \<and>
    s (js_get l k) = Inl ks \<longrightarrow>
      (\<exists>es. locationSchema C (JObj input) = Inl es \<and>
            set (prefixIssues ''location'' (prefixIssues k ks)) \<subseteq> set es)) \<and>
   locationSchema C (JObj [(''location'', JObj [(''address'', JStr ''123'')])]) =
     Inl [Issue (invalid_type ''string'' ''undefined'') [''location'', ''city''] None,
          Issue (too_small 4) [''location'', ''address''] (Some ''address'')]"
proof -
  have "locationSchema C (JObj [(''location'', JObj [(''address'', JStr ''123'')])]) =
     Inl [Issue (invalid_type ''string'' ''undefined'') [''location'', ''city''] None,
          Issue (too_small 4) [''location'', ''address''] (Some ''address'')]"
    by (simp add: locationSchema_def location_shape_def z_object_def z_optional_def
        sizedStringSchema_def countryOptionSchema_def js_get_def has_key_def prefixIssues_def)
  then show ?thesis using locationSchema_field_issues by blast
qed

text \<open>
  The theorem at \<^verbatim>\<open>{ location: { address: "123", region: "B" } }\<close>, for the field
  \<open>region\<close>: its issue is in the list next to those of \<open>city\<close> and \<open>address\<close>.
\<close>

theorem issues_reported_together_witness:
  "js_get [(''location'', JObj [(''address'', JStr ''123''), (''region'', JStr ''B'')])]
     ''location'' = JObj [(''address'', JStr ''123''), (''region'', JStr ''B'')] \<and>
   (''region'', z_optional (sizedStringSchema ''region'' 2 64)) \<in> set (location_shape []) \<and>
   z_optional (sizedStringSchema ''region'' 2 64)
     (js_get [(''address'', JStr ''123''), (''region'', JStr ''B'')] ''region'') =
     Inl [Issue (too_small 2) [] (Some ''region'')] \<and>
   (\<exists>es. locationSchema []
       (JObj [(''location'', JObj [(''address'', JStr ''123''), (''region'', JStr ''B'')])]) =
       Inl es \<and>
     Issue (too_small 2) [''location'', ''region''] (Some ''region'') \<in> set es)"
proof -
  have a: "js_get [(''location'', JObj [(''address'', JStr ''123''), (''region'', JStr ''B'')])]
     ''location'' = JObj [(''address'', JStr ''123''), (''region'', JStr ''B'')]"
    by (simp add: js_get_def)
  have b: "(''region'', z_optional (sizedStringSchema ''region'' 2 64)) \<in> set (location_shape [])"
    by (simp add: location_shape_def)
  have c: "z_optional (sizedStringSchema ''region'' 2 64)
     (js_get [(''address'', JStr ''123''), (''region'', JStr ''B'')] ''region'') =
     Inl [Issue (too_small 2) [] (Some ''region'')]"
    by (simp add: z_optional_def sizedStringSchema_def js_get_def)
  from issues_reported_together
    [of "[(''location'', JObj [(''address'', JStr ''123''), (''region'', JStr ''B'')])]"
        "[(''address'', JStr ''123''), (''region'', JStr ''B'')]" "''region''"
        "z_optional (sizedStringSchema ''region'' 2 64)" "[]"
        "[Issue (too_small 2) [] (Some ''region'')]"] a b c
  have "\<exists>es. locationSchema []
       (JObj [(''location'', JObj [(''address'', JStr ''123''), (''region'', JStr ''B'')])]) =
       Inl es \<and>
     set (prefixIssues ''location'' (prefixIssues ''region''
       [Issue (too_small 2) [] (Some ''region'')])) \<subseteq> set es"
    by blast
  then have d: "\<exists>es. locationSchema []
       (JObj [(''location'', JObj [(''address'', JStr ''123''), (''region'', JStr ''B'')])]) =
       Inl es \<and>
     Issue (too_small 2) [''location'', ''region''] (Some ''region'') \<in> set es"
    by (simp add: prefixIssues_def)
  from a b c d show ?thesis by (intro conjI) assumption+
qed

section \<open>Keys the schema does not declare\<close>

lemma output_keys:
  "fst ` set (concat (map (field_output input) shape)) \<subseteq> fst ` set shape"
proof (induction shape)
  case Nil
  then show ?case by simp
next
  case (Cons p shape)
  have "fst ` set (field_output input p) \<subseteq> {fst p}"
    by (cases p) (auto simp: field_output_def split: sum.splits if_splits)
  with Cons show ?case by (simp add: image_Un) blast
qed

lemma z_object_output_keys:
  assumes "z_object shape x = Inr y"
  shows "\<exists>out. y = JObj out \<and> fst ` set out \<subseteq> fst ` set shape"
proof (cases x)
  case (JObj input)
  with assms have "y = JObj (concat (map (field_output input) shape))"
    by (simp add: z_object_JObj split: if_splits del: concat_eq_Nil_conv)
  with output_keys show ?thesis by blast
qed (use assms in \<open>simp_all add: z_object_def\<close>)

lemma z_object_cong:
  "(\<And>k. k \<in> fst ` set shape \<Longrightarrow> map_of a k = map_of b k) \<Longrightarrow>
   z_object shape (JObj a) = z_object shape (JObj b)"
  by (simp add: z_object_def parse_shape_cong [of shape a b])

lemma locationSchema_output:
  assumes "locationSchema C x = Inr y"
  shows "y = JObj [] \<or> y = JObj [(''location'', JUndefined)] \<or>
         (\<exists>l. y = JObj [(''location'', JObj l)] \<and>
              fst ` set l \<subseteq> {''city'', ''address'', ''country'', ''postalCode'', ''region''})"
proof -
  let ?s = "z_optional (z_object (location_shape C))"
  from assms obtain input where x: "x = JObj input"
    by (cases x) (auto simp: locationSchema_def z_object_def)
  from assms have y: "y = JObj (field_output input (''location'', ?s))"
    and ok: "field_issues input (''location'', ?s) = []"
    by (simp_all add: x locationSchema_def z_object_JObj split: if_splits)
  have "?s (js_get input ''location'') \<noteq> Inl []"
    by (simp add: z_optional_nonempty z_object_nonempty)
  with ok obtain w where w: "?s (js_get input ''location'') = Inr w"
    by (cases "?s (js_get input ''location'')") (simp_all add: field_issues_def)
  show ?thesis
  proof (cases "js_get input ''location'' = JUndefined")
    case True
    with w have "w = JUndefined" by (simp add: z_optional_def)
    with w y show ?thesis by (simp add: field_output_def)
  next
    case False
    then have "has_key input ''location''"
      by (simp add: js_get_def has_key_def split: option.splits)
    with w y have y': "y = JObj [(''location'', w)]" by (simp add: field_output_def)
    from w False have "z_object (location_shape C) (js_get input ''location'') = Inr w"
      by (simp add: z_optional_def)
    from z_object_output_keys [OF this] obtain l where
      "w = JObj l" "fst ` set l \<subseteq> fst ` set (location_shape C)" by blast
    with y' show ?thesis by (auto simp: location_shape_def)
  qed
qed

text \<open>
  C10. Keys the schema does not declare have no influence: the result is the same for two
  input objects that agree on the key \<open>location\<close>, and the same for two inputs whose
  location objects agree on the five declared keys. A successful output holds nothing
  but declared keys: it is the empty object, or holds \<open>location\<close> alone, and a location
  object in it holds declared keys only. \<^verbatim>\<open>{ city: "Berlin" }\<close> validates to the empty
  object.
\<close>

theorem unknown_keys_stripped:
  "(map_of a ''location'' = map_of b ''location'' \<longrightarrow>
      locationSchema C (JObj a) = locationSchema C (JObj b)) \<and>
   (js_get a ''location'' = JObj l \<and> js_get b ''location'' = JObj l' \<and>
    (\<forall>k \<in> {''city'', ''address'', ''country'', ''postalCode'', ''region''}.
        map_of l k = map_of l' k) \<longrightarrow>
      locationSchema C (JObj a) = locationSchema C (JObj b)) \<and>
   (locationSchema C x = Inr y \<longrightarrow>
      y = JObj [] \<or> y = JObj [(''location'', JUndefined)] \<or>
      (\<exists>out. y = JObj [(''location'', JObj out)] \<and>
         fst ` set out \<subseteq> {''city'', ''address'', ''country'', ''postalCode'', ''region''})) \<and>
   locationSchema C (JObj [(''city'', JStr ''Berlin'')]) = Inr (JObj [])"
proof -
  have top: "locationSchema C (JObj a) = locationSchema C (JObj b)"
    if "map_of a ''location'' = map_of b ''location''"
    unfolding locationSchema_def using that by (intro z_object_cong) simp
  have inner: "locationSchema C (JObj a) = locationSchema C (JObj b)"
    if loc: "js_get a ''location'' = JObj l" "js_get b ''location'' = JObj l'"
      and same: "\<forall>k \<in> {''city'', ''address'', ''country'', ''postalCode'', ''region''}.
        map_of l k = map_of l' k"
  proof -
    have "parse_shape (location_shape C) l = parse_shape (location_shape C) l'"
      using same by (intro parse_shape_cong) (auto simp: location_shape_def)
    then have "concat (map (field_issues l) (location_shape C)) =
        concat (map (field_issues l') (location_shape C))"
      and "concat (map (field_output l) (location_shape C)) =
        concat (map (field_output l') (location_shape C))"
      by (simp_all add: parse_shape_concat)
    then show ?thesis by (simp only: locationSchema_JObj [OF loc(1)] locationSchema_JObj [OF loc(2)])
  qed
  have ex: "locationSchema C (JObj [(''city'', JStr ''Berlin'')]) = Inr (JObj [])"
    by (simp add: locationSchema_absent has_key_def)
  from top inner ex locationSchema_output [of C x y] show ?thesis by blast
qed

text \<open>
  The theorem at inputs with undeclared keys at the top level (\<open>basics\<close>, \<open>work\<close>, \<open>x\<close>)
  and inside the location (\<open>zip\<close>).
\<close>

theorem unknown_keys_stripped_witness:
  "map_of [(''basics'', JNull), (''location'', JUndefined)] ''location'' =
   map_of [(''location'', JUndefined), (''work'', JArr [])] ''location'' \<and>
   locationSchema [] (JObj [(''basics'', JNull), (''location'', JUndefined)]) =
   locationSchema [] (JObj [(''location'', JUndefined), (''work'', JArr [])]) \<and>
   locationSchema [] (JObj [(''location'', JObj [(''city'', JStr ''Berlin''), (''zip'', JNum 7)])]) =
     Inr (JObj [(''location'', JObj [(''city'', JStr ''Berlin'')])]) \<and>
   locationSchema [] (JObj [(''location'', JObj [(''city'', JStr ''Berlin''), (''zip'', JNum 7)])]) =
   locationSchema [] (JObj [(''location'', JObj [(''city'', JStr ''Berlin'')]), (''x'', JNull)]) \<and>
   fst ` set [(''city'', JStr ''Berlin'')] \<subseteq>
     {''city'', ''address'', ''country'', ''postalCode'', ''region''}"
proof -
  have a: "map_of [(''basics'', JNull), (''location'', JUndefined)] ''location'' =
   map_of [(''location'', JUndefined), (''work'', JArr [])] ''location''"
    by simp
  have b: "js_get [(''location'', JObj [(''city'', JStr ''Berlin''), (''zip'', JNum 7)])] ''location''
      = JObj [(''city'', JStr ''Berlin''), (''zip'', JNum 7)]"
    "js_get [(''location'', JObj [(''city'', JStr ''Berlin'')]), (''x'', JNull)] ''location''
      = JObj [(''city'', JStr ''Berlin'')]"
    by (simp_all add: js_get_def)
  have c: "\<forall>k \<in> {''city'', ''address'', ''country'', ''postalCode'', ''region''}.
     map_of [(''city'', JStr ''Berlin''), (''zip'', JNum 7)] k = map_of [(''city'', JStr ''Berlin'')] k"
    by simp
  have d: "locationSchema [] (JObj [(''location'', JObj [(''city'', JStr ''Berlin''), (''zip'', JNum 7)])]) =
     Inr (JObj [(''location'', JObj [(''city'', JStr ''Berlin'')])])"
    by (simp add: locationSchema_def location_shape_def z_object_def z_optional_def
        sizedStringSchema_def countryOptionSchema_def js_get_def has_key_def prefixIssues_def)
  from unknown_keys_stripped [of "[(''basics'', JNull), (''location'', JUndefined)]"
      "[(''location'', JUndefined), (''work'', JArr [])]" "[]"] a
  have 1: "locationSchema [] (JObj [(''basics'', JNull), (''location'', JUndefined)]) =
   locationSchema [] (JObj [(''location'', JUndefined), (''work'', JArr [])])"
    by blast
  from unknown_keys_stripped [of "[(''location'', JObj [(''city'', JStr ''Berlin''), (''zip'', JNum 7)])]"
      "[(''location'', JObj [(''city'', JStr ''Berlin'')]), (''x'', JNull)]" "[]"
      "[(''city'', JStr ''Berlin''), (''zip'', JNum 7)]" "[(''city'', JStr ''Berlin'')]"] b c
  have 2: "locationSchema [] (JObj [(''location'', JObj [(''city'', JStr ''Berlin''), (''zip'', JNum 7)])]) =
   locationSchema [] (JObj [(''location'', JObj [(''city'', JStr ''Berlin'')]), (''x'', JNull)])"
    by blast
  from unknown_keys_stripped [of _ _ "[]" _ _ "JObj [(''location'', JObj [(''city'', JStr ''Berlin''), (''zip'', JNum 7)])]"
      "JObj [(''location'', JObj [(''city'', JStr ''Berlin'')])]"] d
  have 3: "fst ` set [(''city'', JStr ''Berlin'')] \<subseteq>
     {''city'', ''address'', ''country'', ''postalCode'', ''region''}"
    by simp
  from a 1 d 2 3 show ?thesis by (intro conjI) assumption+
qed

section \<open>The schema and the type\<close>

text \<open>
  C9. The fields the location schema validates, with their optionality, are the
  properties of \<^verbatim>\<open>LocationItem\<close> with theirs, in the same order, once \<open>computed\<close> is left
  out. \<open>computed\<close> is an optional property of the type, is none of the base properties,
  and none of its own properties has the name of a base property; a validated location
  never holds it, only properties of the type.
\<close>

theorem schema_matches_LocationItem:
  "shape_fields (location_shape C) = filter (\<lambda>(k, opt). k \<noteq> ''computed'') LocationItem \<and>
   map_of LocationItem ''computed'' = Some True \<and>
   distinct (map fst LocationItem) \<and>
   set (map fst LocationItem_computed) \<inter> set (map fst LocationItem) = {} \<and>
   (locationSchema C x = Inr (JObj [(''location'', JObj out)]) \<longrightarrow>
      ''computed'' \<notin> fst ` set out \<and>
      (\<forall>k \<in> fst ` set out. k \<in> fst ` set LocationItem))"
proof -
  have "shape_fields (location_shape C) =
      filter (\<lambda>(k, opt). k \<noteq> ''computed'') LocationItem"
    by (simp add: shape_fields_def location_shape_def LocationItem_def accepts_def
        z_optional_def sizedStringSchema_def)
  moreover have "''computed'' \<notin> fst ` set out \<and> (\<forall>k \<in> fst ` set out. k \<in> fst ` set LocationItem)"
    if "locationSchema C x = Inr (JObj [(''location'', JObj out)])"
    using locationSchema_output [OF that] by (auto simp: LocationItem_def)
  ultimately show ?thesis
    by (simp add: LocationItem_def LocationItem_computed_def)
qed


text \<open>
  The theorem at a location that carries a \<open>computed\<close> object: it validates, and the
  output is without \<open>computed\<close>.
\<close>

theorem schema_matches_LocationItem_witness:
  "locationSchema [''DE'']
     (JObj [(''location'', JObj [(''city'', JStr ''Berlin''),
        (''computed'', JObj [(''fullAddress'', JStr ''Berlin'')])])]) =
     Inr (JObj [(''location'', JObj [(''city'', JStr ''Berlin'')])]) \<and>
   ''computed'' \<notin> fst ` set [(''city'', JStr ''Berlin'')] \<and>
   shape_fields (location_shape [''DE'']) =
     [(''city'', False), (''address'', True), (''country'', True), (''postalCode'', True),
      (''region'', True)]"
proof -
  have a: "locationSchema [''DE'']
     (JObj [(''location'', JObj [(''city'', JStr ''Berlin''),
        (''computed'', JObj [(''fullAddress'', JStr ''Berlin'')])])]) =
     Inr (JObj [(''location'', JObj [(''city'', JStr ''Berlin'')])])"
    by (simp add: locationSchema_def location_shape_def z_object_def z_optional_def
        sizedStringSchema_def countryOptionSchema_def js_get_def has_key_def prefixIssues_def)
  from schema_matches_LocationItem [of "[''DE'']" "JObj [(''location'', JObj [(''city'', JStr ''Berlin''),
        (''computed'', JObj [(''fullAddress'', JStr ''Berlin'')])])]" "[(''city'', JStr ''Berlin'')]"] a
  show ?thesis by (simp add: LocationItem_def)
qed

end
